theory Spec2Isabelle
  imports Complex_Main "HOL-Library.Word"
begin

section \<open>Items, channels and the run-time context\<close>

text \<open>
  Items travel through the pipeline as Go \<open>interface{}\<close> values. The constructors below
  are the dynamic shapes the operators of this development look at: the nil interface,
  a Go \<open>int\<close> (64 bits, wrapping), a string, a slice or array (its elements in index
  order) and a map (its entries, in the order one iteration of the map visits them).

  Modelled from the spec: \<open>api.StreamError\<close> and \<open>tuple.KV\<close> are declared outside the
  files at hand. A stream error is a value carrying its message (\<open>StreamErrorV\<close>); the
  tuple the stream operator builds from a map entry is the pair of key and value (\<open>KV\<close>),
  which is neither a slice nor a map.
\<close>

datatype val =
    NilV
  | IntV "64 word"
  | StrV string
  | SliceV "val list"
  | MapV "(val \<times> val) list"
  | KV val val
  | StreamErrorV string

text \<open>
  A channel as its sender sees it: the capacity it was made with, the values sent on it
  so far, in order, and whether it has been closed. The receiving end is taken to keep
  receiving, so a send on an open channel completes; what the model records is the
  sequence the receiver gets. A channel-typed field may hold the nil channel, which is
  \<open>None\<close>.
\<close>

record 'a chan =
  ch_cap :: nat
  ch_sent :: "'a list"
  ch_closed :: bool

definition make_chan :: "nat \<Rightarrow> 'a chan" where
  "make_chan n = \<lparr>ch_cap = n, ch_sent = [], ch_closed = False\<rparr>"

text \<open>
  The outcome of a channel operation or of a goroutine: it completes, it blocks for
  ever, or it panics. In Go a send on the nil channel blocks for ever, a send on a closed
  channel panics, and closing the nil channel or a closed channel panics.
\<close>

datatype 'a outcome = Ok 'a | Blocks | Panics

fun chan_send :: "'a chan option \<Rightarrow> 'a \<Rightarrow> 'a chan outcome" where
  "chan_send None v = Blocks"
| "chan_send (Some c) v =
     (if ch_closed c then Panics else Ok (c\<lparr>ch_sent := ch_sent c @ [v]\<rparr>))"

fun chan_close :: "'a chan option \<Rightarrow> 'a chan outcome" where
  "chan_close None = Panics"
| "chan_close (Some c) = (if ch_closed c then Panics else Ok (c\<lparr>ch_closed := True\<rparr>))"

text \<open>What the receiver of a channel has been sent; nothing on the nil channel.\<close>

definition received :: "'a chan option \<Rightarrow> 'a list" where
  "received out = (case out of None \<Rightarrow> [] | Some c \<Rightarrow> ch_sent c)"

text \<open>
  A receive-only channel as its single receiver sees it: the items it will deliver, in
  order, and whether the sender closes it after the last one. When it is not closed,
  a receive after the last item blocks.
\<close>

record inchan =
  in_items :: "val list"
  in_closes :: bool

text \<open>
  The context handed to \<open>Exec\<close> and \<open>Open\<close>. It carries the log function and the error
  function, each possibly nil (\<open>False\<close>), and its cancellation. A goroutine of this
  library looks at the context only in a \<open>select\<close>; \<open>ctx_done = Some k\<close> says that the
  \<open>Done\<close> case is taken at the goroutine's \<open>k\<close>-th \<open>select\<close> (counted from 0), or at an
  earlier one at which the goroutine would otherwise block for ever, and \<open>None\<close> says
  that the context is never done. Every resolution of the \<open>select\<close> statements of one run
  is one value of \<open>ctx_done\<close>.
\<close>

record ctx =
  ctx_logf :: bool
  ctx_errf :: bool
  ctx_done :: "nat option"

definition tick :: "nat option \<Rightarrow> nat option" where
  "tick d = map_option (\<lambda>k. k - 1) d"

text \<open>
  \<open>context.Background()\<close> and \<open>context.TODO()\<close>: never done, and without a log
  function or an error function.
\<close>

definition background :: ctx where
  "background = \<lparr>ctx_logf = False, ctx_errf = False, ctx_done = None\<rparr>"

text \<open>
  What the callbacks have been called with: the messages passed to the log function and
  the stream errors passed to the error function.
\<close>

record world =
  logged :: "val list"
  reported :: "val list"

definition world0 :: world where
  "world0 = \<lparr>logged = [], reported = []\<rparr>"

text \<open>\<open>util.Logfn\<close>: if the function is not nil, call it with the message.\<close>

definition Logfn :: "bool \<Rightarrow> val \<Rightarrow> world \<Rightarrow> world" where
  "Logfn f msg w = (if f then w\<lparr>logged := logged w @ [msg]\<rparr> else w)"

text \<open>
  Modelled from the spec: \<open>autoctx.Err\<close> is declared outside the files at hand; the
  error function receives the stream error, and an absent error function is a no-op.
\<close>

definition Err :: "bool \<Rightarrow> val \<Rightarrow> world \<Rightarrow> world" where
  "Err f e w = (if f then w\<lparr>reported := reported w @ [e]\<rparr> else w)"

datatype exit = Returned | Blocked | Panicked

section \<open>The binary operator\<close>

text \<open>
  \<open>api.BinOperation\<close> is an opaque callable \<open>Apply(ctx, op1, op2)\<close>. It is a function of
  the two operands that either returns a value or panics (\<open>None\<close>).
\<close>

type_synonym BinOperation = "val \<Rightarrow> val \<Rightarrow> val option"

record BinaryOperator =
  b_op :: "BinOperation option"
  b_state :: val
  b_concurrency :: "64 word"
  b_input :: "inchan option"
  b_output :: "val chan option"
  b_logf :: bool
  b_errf :: bool

definition binary_New :: BinaryOperator where
  "binary_New =
     \<lparr>b_op = None, b_state = NilV, b_concurrency = 1, b_input = None,
      b_output = Some (make_chan 1024), b_logf = False, b_errf = False\<rparr>"

definition SetOperation :: "BinOperation \<Rightarrow> BinaryOperator \<Rightarrow> BinaryOperator" where
  "SetOperation f b = b\<lparr>b_op := Some f\<rparr>"

definition SetInitialState :: "val \<Rightarrow> BinaryOperator \<Rightarrow> BinaryOperator" where
  "SetInitialState v b = b\<lparr>b_state := v\<rparr>"

definition SetConcurrency :: "64 word \<Rightarrow> BinaryOperator \<Rightarrow> BinaryOperator" where
  "SetConcurrency concurr b =
     (let b1 = b\<lparr>b_concurrency := concurr\<rparr>
      in if b_concurrency b1 <s 1 then b1\<lparr>b_concurrency := 1\<rparr> else b1)"

definition SetInput :: "inchan \<Rightarrow> BinaryOperator \<Rightarrow> BinaryOperator" where
  "SetInput i b = b\<lparr>b_input := Some i\<rparr>"

definition GetOutput :: "BinaryOperator \<Rightarrow> val chan option" where
  "GetOutput b = b_output b"

text \<open>
  The loop of \<open>doOp\<close>. Each round is one \<open>select\<close> over the input and the context.
  The result of \<open>Apply\<close> is stored in the state first; the type switch then looks at the
  stored value.
\<close>

fun doOp_loop ::
  "BinOperation \<Rightarrow> bool \<Rightarrow> bool \<Rightarrow> val list \<Rightarrow> bool \<Rightarrow> nat option \<Rightarrow> val \<Rightarrow> world
    \<Rightarrow> val \<times> world \<times> exit" where
  "doOp_loop f lg ef [] cl d s w =
     (if d = Some 0 then (s, w, Returned)
      else if cl then (s, w, Returned)
      else if d = None then (s, w, Blocked)
      else (s, w, Returned))"
| "doOp_loop f lg ef (item # its) cl d s w =
     (if d = Some 0 then (s, w, Returned)
      else (case f s item of
              None \<Rightarrow> (s, w, Panicked)
            | Some s' \<Rightarrow>
                (case s' of
                   NilV \<Rightarrow> doOp_loop f lg ef its cl (tick d) s' w
                 | StreamErrorV m \<Rightarrow>
                     doOp_loop f lg ef its cl (tick d) s' (Err ef s' (Logfn lg s' w))
                 | _ \<Rightarrow> doOp_loop f lg ef its cl (tick d) s' w)))"

text \<open>
  \<open>doOp\<close>: without an operation it logs and returns. Otherwise it runs the loop; the
  deferred function logs and cancels the derived context, also when \<open>Apply\<close> panics, and
  not when the loop blocks for ever.
\<close>

definition doOp :: "ctx \<Rightarrow> inchan \<Rightarrow> BinaryOperator \<Rightarrow> world \<Rightarrow> BinaryOperator \<times> world \<times> exit" where
  "doOp ctx i b w =
     (case b_op b of
        None \<Rightarrow> (b, Logfn (b_logf b) (StrV ''Binary operator has no operation'') w, Returned)
      | Some f \<Rightarrow>
          (case doOp_loop f (b_logf b) (b_errf b) (in_items i) (in_closes i) (ctx_done ctx) (b_state b) w of
             (s, w1, e) \<Rightarrow>
               (b\<lparr>b_state := s\<rparr>,
                if e = Blocked then w1 else Logfn (b_logf b) (StrV ''Binary operator cancelling'') w1,
                e)))"

text \<open>
  The goroutine \<open>Exec\<close> starts: \<open>doOp\<close>, then the deferred function, which sends the
  state on the output, closes the output and logs. The deferred function also runs when
  \<open>doOp\<close> panics, and the panic goes on after it.
\<close>

definition Exec_task :: "ctx \<Rightarrow> inchan \<Rightarrow> BinaryOperator \<Rightarrow> world \<Rightarrow> BinaryOperator \<times> world \<times> exit" where
  "Exec_task ctx i b w =
     (case doOp ctx i b w of
        (b1, w1, e) \<Rightarrow>
          if e = Blocked then (b1, w1, Blocked)
          else (case chan_send (b_output b1) (b_state b1) of
                  Blocks \<Rightarrow> (b1, w1, Blocked)
                | Panics \<Rightarrow> (b1, w1, Panicked)
                | Ok c \<Rightarrow>
                    (case chan_close (Some c) of
                       Blocks \<Rightarrow> (b1\<lparr>b_output := Some c\<rparr>, w1, Blocked)
                     | Panics \<Rightarrow> (b1\<lparr>b_output := Some c\<rparr>, w1, Panicked)
                     | Ok c' \<Rightarrow>
                         (b1\<lparr>b_output := Some c'\<rparr>,
                          Logfn (b_logf b1) (StrV ''Binary operator done'') w1, e))))"

text \<open>
  The result of \<open>Exec\<close> and of the goroutine it may have started: the error \<open>Exec\<close>
  returned (\<open>None\<close> is Go's nil), whether a goroutine was started and how it ended, and
  the operator and the callbacks' record afterwards.
\<close>

record 'o run =
  r_err :: "string option"
  r_task :: "exit option"
  r_op :: 'o
  r_world :: world

definition binary_Exec :: "ctx \<Rightarrow> BinaryOperator \<Rightarrow> world \<Rightarrow> BinaryOperator run" where
  "binary_Exec ctx b w =
     (let b1 = b\<lparr>b_logf := ctx_logf ctx, b_errf := ctx_errf ctx\<rparr>;
          w1 = Logfn (b_logf b1) (StrV ''Binary operator starting'') w
      in case b_input b1 of
           None \<Rightarrow> \<lparr>r_err = Some ''No input channel found'', r_task = None, r_op = b1, r_world = w1\<rparr>
         | Some i \<Rightarrow>
             (case Exec_task ctx i b1 w1 of
                (b2, w2, e) \<Rightarrow> \<lparr>r_err = None, r_task = Some e, r_op = b2, r_world = w2\<rparr>))"

section \<open>The stream operator\<close>

record StreamOperator =
  s_input :: "inchan option"
  s_output :: "val chan option"
  s_logf :: bool

definition stream_New :: StreamOperator where
  "stream_New = \<lparr>s_input = None, s_output = Some (make_chan 1024), s_logf = False\<rparr>"

definition stream_SetInput :: "inchan \<Rightarrow> StreamOperator \<Rightarrow> StreamOperator" where
  "stream_SetInput i r = r\<lparr>s_input := Some i\<rparr>"

definition stream_GetOutput :: "StreamOperator \<Rightarrow> val chan option" where
  "stream_GetOutput r = s_output r"

text \<open>
  \<open>reflect.Value.MapKeys\<close> and \<open>MapIndex\<close> on the entries of a map. A key that
  \<open>MapKeys\<close> returned is always found by \<open>MapIndex\<close>; the value for a key that is not
  there, which the loop never asks for, is the nil interface here.
\<close>

definition MapKeys :: "(val \<times> val) list \<Rightarrow> val list" where
  "MapKeys kvs = map fst kvs"

definition MapIndex :: "(val \<times> val) list \<Rightarrow> val \<Rightarrow> val" where
  "MapIndex kvs k = (case map_of kvs k of Some v \<Rightarrow> v | None \<Rightarrow> NilV)"

text \<open>
  The switch on \<open>itemType.Kind()\<close>: the values the goroutine sends downstream for one
  item. \<open>reflect.TypeOf\<close> of the nil interface is the nil \<open>Type\<close>, and the call of \<open>Kind\<close>
  on it panics (\<open>None\<close>).
\<close>

fun unpack :: "val \<Rightarrow> val list option" where
  "unpack NilV = None"
| "unpack (SliceV vs) = Some vs"
| "unpack (MapV kvs) = Some (map (\<lambda>k. KV k (MapIndex kvs k)) (MapKeys kvs))"
| "unpack v = Some [v]"

text \<open>
  The sends for one item. Each is a \<open>select\<close> over the send and the context: the loop
  either sends every value and goes on (\<open>Emitted\<close>), or the goroutine leaves
  (\<open>Stopped\<close>): it returns when the context is done, blocks for ever on the nil channel
  when the context is never done, and panics on a closed channel.
\<close>

datatype emitted = Emitted "val chan option" "nat option" | Stopped "val chan option" exit

fun emit :: "val list \<Rightarrow> nat option \<Rightarrow> val chan option \<Rightarrow> emitted" where
  "emit [] d out = Emitted out d"
| "emit (v # vs) d out =
     (if d = Some 0 then Stopped out Returned
      else (case chan_send out v of
              Ok c \<Rightarrow> emit vs (tick d) (Some c)
            | Blocks \<Rightarrow> (if d = None then Stopped out Blocked else Stopped out Returned)
            | Panics \<Rightarrow> Stopped out Panicked))"

fun stream_loop :: "val list \<Rightarrow> bool \<Rightarrow> nat option \<Rightarrow> val chan option \<Rightarrow> val chan option \<times> exit" where
  "stream_loop [] cl d out =
     (if d = Some 0 then (out, Returned)
      else if cl then (out, Returned)
      else if d = None then (out, Blocked)
      else (out, Returned))"
| "stream_loop (item # its) cl d out =
     (if d = Some 0 then (out, Returned)
      else (case unpack item of
              None \<Rightarrow> (out, Panicked)
            | Some vs \<Rightarrow>
                (case emit vs (tick d) out of
                   Emitted out' d' \<Rightarrow> stream_loop its cl d' out'
                 | Stopped out' e \<Rightarrow> (out', e))))"

text \<open>
  The goroutine of the stream operator's \<open>Exec\<close>: the loop, then the deferred function,
  which logs, cancels the derived context and closes the output. The deferred function
  also runs when the loop panics.
\<close>

definition stream_task :: "ctx \<Rightarrow> inchan \<Rightarrow> StreamOperator \<Rightarrow> world \<Rightarrow> StreamOperator \<times> world \<times> exit" where
  "stream_task ctx i r w =
     (case stream_loop (in_items i) (in_closes i) (ctx_done ctx) (s_output r) of
        (out, e) \<Rightarrow>
          if e = Blocked then (r\<lparr>s_output := out\<rparr>, w, Blocked)
          else (let w1 = Logfn (s_logf r) (StrV ''Stream operator closing'') w
                in case chan_close out of
                     Ok c \<Rightarrow> (r\<lparr>s_output := Some c\<rparr>, w1, e)
                   | Blocks \<Rightarrow> (r\<lparr>s_output := out\<rparr>, w1, Blocked)
                   | Panics \<Rightarrow> (r\<lparr>s_output := out\<rparr>, w1, Panicked)))"

definition stream_Exec :: "ctx \<Rightarrow> StreamOperator \<Rightarrow> world \<Rightarrow> StreamOperator run" where
  "stream_Exec ctx r w =
     (let r1 = r\<lparr>s_logf := ctx_logf ctx\<rparr>;
          w1 = Logfn (s_logf r1) (StrV ''Stream operator starting'') w
      in case s_input r1 of
           None \<Rightarrow> \<lparr>r_err = Some ''No input channel found'', r_task = None, r_op = r1, r_world = w1\<rparr>
         | Some i \<Rightarrow>
             (case stream_task ctx i r1 w1 of
                (r2, w2, e) \<Rightarrow> \<lparr>r_err = None, r_task = Some e, r_op = r2, r_world = w2\<rparr>))"

section \<open>The null collector\<close>

record NullCollector =
  n_input :: "inchan option"
  n_logf :: bool


definition Null_SetInput :: "inchan \<Rightarrow> NullCollector \<Rightarrow> NullCollector" where
  "Null_SetInput i s = s\<lparr>n_input := Some i\<rparr>"

text \<open>The loop of the collector's goroutine: it drops every item it receives.\<close>

fun null_loop :: "val list \<Rightarrow> bool \<Rightarrow> nat option \<Rightarrow> exit" where
  "null_loop [] cl d =
     (if d = Some 0 then Returned
      else if cl then Returned
      else if d = None then Blocked
      else Returned)"
| "null_loop (item # its) cl d = (if d = Some 0 then Returned else null_loop its cl (tick d))"




text \<open>
  \<open>api.Collector\<close> is the interface of \<open>SetInput\<close> and \<open>Open\<close>. Of its implementations
  the null collector is the one among the files at hand, so a collector is a null
  collector here. \<open>drains\<close> says when a collector's draining completes: its input is
  closed by the sender, or the context is done. On the nil input only the context can end
  it.
\<close>

datatype Collector = NullC NullCollector


fun Collector_SetInput :: "inchan \<Rightarrow> Collector \<Rightarrow> Collector" where
  "Collector_SetInput i (NullC s) = NullC (Null_SetInput i s)"



section \<open>Sequences of calls, and the operations of the tests\<close>

text \<open>
  The items still in the input channel when the loop of \<open>doOp\<close> ends: the loop has
  taken the others out, also the one on which \<open>Apply\<close> panicked. Without an operation
  the loop is never entered and the channel is as it was.
\<close>

fun doOp_left :: "BinOperation \<Rightarrow> val list \<Rightarrow> nat option \<Rightarrow> val \<Rightarrow> val list" where
  "doOp_left f [] d s = []"
| "doOp_left f (item # its) d s =
     (if d = Some 0 then item # its
      else (case f s item of None \<Rightarrow> its | Some s' \<Rightarrow> doOp_left f its (tick d) s'))"

definition drained :: "ctx \<Rightarrow> BinaryOperator \<Rightarrow> inchan \<Rightarrow> inchan" where
  "drained ctx b i =
     (case b_op b of
        None \<Rightarrow> i
      | Some f \<Rightarrow> i\<lparr>in_items := doOp_left f (in_items i) (ctx_done ctx) (b_state b)\<rparr>)"

text \<open>
  The calls a client can make on a binary operator, and what a sequence of them leaves
  behind. \<open>Exec\<close> is taken together with the goroutine it starts, and a later call
  finds the input channel as that goroutine left it.
\<close>

datatype call =
    CallSetOperation BinOperation
  | CallSetInitialState val
  | CallSetConcurrency "64 word"
  | CallSetInput inchan
  | CallExec ctx

fun do_call :: "BinaryOperator \<times> world \<Rightarrow> call \<Rightarrow> BinaryOperator \<times> world" where
  "do_call (b, w) (CallSetOperation f) = (SetOperation f b, w)"
| "do_call (b, w) (CallSetInitialState v) = (SetInitialState v b, w)"
| "do_call (b, w) (CallSetConcurrency c) = (SetConcurrency c b, w)"
| "do_call (b, w) (CallSetInput i) = (SetInput i b, w)"
| "do_call (b, w) (CallExec ctx) =
     ((r_op (binary_Exec ctx b w))\<lparr>b_input := map_option (drained ctx b) (b_input b)\<rparr>,
      r_world (binary_Exec ctx b w))"

definition do_calls :: "call list \<Rightarrow> BinaryOperator \<times> world" where
  "do_calls cs = foldl do_call (binary_New, world0) cs"

text \<open>
  The state after a list of items, each applied in turn to the state before it; \<open>None\<close>
  when one application panics. This is the left fold of the operation.
\<close>

fun apply_all :: "BinOperation \<Rightarrow> val \<Rightarrow> val list \<Rightarrow> val option" where
  "apply_all f s [] = Some s"
| "apply_all f s (x # xs) = (case f s x of None \<Rightarrow> None | Some s' \<Rightarrow> apply_all f s' xs)"

text \<open>
  The items the loop of a goroutine receives before it takes the \<open>Done\<close> case: all of
  them when the context is never done.
\<close>

definition seen :: "nat option \<Rightarrow> val list \<Rightarrow> val list" where
  "seen d its = (case d of None \<Rightarrow> its | Some k \<Rightarrow> take k its)"

text \<open>
  The state a binary operator holds after its loop has received the items \<open>xs\<close>:
  without an operation the loop is never entered.
\<close>

definition final_state :: "BinaryOperator \<Rightarrow> val list \<Rightarrow> val option" where
  "final_state b xs =
     (case b_op b of None \<Rightarrow> Some (b_state b) | Some f \<Rightarrow> apply_all f (b_state b) xs)"



text \<open>
  The operation of \<open>BenchmarkBinaryOp_Exec\<close>: both operands are asserted to be \<open>int\<close>s
  and are added.
\<close>

fun add_op :: BinOperation where
  "add_op (IntV val0) (IntV val1) = Some (IntV (val0 + val1))"
| "add_op op1 op2 = None"

text \<open>
  A new operator with the initial state 0 and an operation, as the test and the benchmark
  set it up before \<open>SetInput\<close>.
\<close>

definition from_zero :: "BinOperation \<Rightarrow> BinaryOperator" where
  "from_zero f = SetOperation f (SetInitialState (IntV 0) binary_New)"

text \<open>
  Modelled from the spec: \<open>Stream.Reduce\<close>, the slice emitter and the slice collector are
  outside the files at hand. A reduce stage is a binary operator with the initial state
  and the operation set; the source sends its items in order and closes its channel; the
  context is never done and has no callbacks; the sink holds what it received from the
  operator's output. The function of \<open>TestStream_Reduce\<close> adds two \<open>int\<close> operands, as
  \<open>add_op\<close> does.
\<close>

definition Reduce :: "val \<Rightarrow> BinOperation \<Rightarrow> BinaryOperator" where
  "Reduce initVal f = SetInitialState initVal (SetOperation f binary_New)"

definition Reduce_sink :: "val list \<Rightarrow> val \<Rightarrow> BinOperation \<Rightarrow> val list" where
  "Reduce_sink xs initVal f =
     received (b_output (r_op (binary_Exec background
       (SetInput \<lparr>in_items = xs, in_closes = True\<rparr> (Reduce initVal f)) world0)))"

text \<open>
  Two operations for the type switch of \<open>doOp\<close>: one returns nil and one returns a
  stream error, whatever the operands.
\<close>

fun nil_op :: BinOperation where
  "nil_op op1 op2 = Some NilV"

fun err_op :: BinOperation where
  "err_op op1 op2 = Some (StreamErrorV ''bad'')"

text \<open>What the stream operator sends for one item; nothing for the item it panics on.\<close>

definition unpacked :: "val \<Rightarrow> val list" where
  "unpacked v = (case unpack v of None \<Rightarrow> [] | Some vs \<Rightarrow> vs)"

section \<open>The batch sum example\<close>

text \<open>\<open>strings.Split\<close> with a separator of one character.\<close>

fun split_from :: "char \<Rightarrow> string \<Rightarrow> string \<Rightarrow> string list" where
  "split_from sep cur [] = [cur]"
| "split_from sep cur (x # xs) =
     (if x = sep then cur # split_from sep [] xs else split_from sep (cur @ [x]) xs)"

definition Split :: "string \<Rightarrow> char \<Rightarrow> string list" where
  "Split s sep = split_from sep [] s"

text \<open>
  The decimal numbers of the rows: digits, with at most one point among them, no sign and
  no exponent. \<open>parse_decimal\<close> gives the digits as a number and the count of digits
  after the point, so that \<open>(n, k)\<close> stands for \<open>n / 10 ^ k\<close>. Any other string is outside
  this development (\<open>None\<close>).
\<close>

definition digit_of :: "char \<Rightarrow> nat option" where
  "digit_of c =
     (let n = (of_char c :: nat) in if 48 \<le> n \<and> n \<le> 57 then Some (n - 48) else None)"

fun digits_val :: "nat \<Rightarrow> string \<Rightarrow> nat option" where
  "digits_val acc [] = Some acc"
| "digits_val acc (c # cs) =
     (case digit_of c of None \<Rightarrow> None | Some d \<Rightarrow> digits_val (10 * acc + d) cs)"

definition parse_decimal :: "string \<Rightarrow> (nat \<times> nat) option" where
  "parse_decimal s =
     (let ip = takeWhile (\<lambda>c. c \<noteq> CHR ''.'') s;
          rest = dropWhile (\<lambda>c. c \<noteq> CHR ''.'') s
      in case rest of
           [] \<Rightarrow> (if ip = [] then None else map_option (\<lambda>n. (n, 0)) (digits_val 0 ip))
         | dot # fp \<Rightarrow>
             (if ip = [] \<and> fp = [] then None
              else map_option (\<lambda>n. (n, length fp)) (digits_val 0 (ip @ fp))))"

text \<open>
  A finite float that is not negative is a pair \<open>(m, e)\<close> for the number \<open>m * 2 ^ e\<close>.
  \<open>round_to p emin emax a b\<close> is the float with \<open>p\<close> bits of precision nearest to
  \<open>a / b\<close>, ties going to the even one, as IEEE 754 rounds: \<open>e\<close> is the exponent of
  \<open>a / b\<close>, the quotient is scaled into \<open>p\<close> bits, and the remainder decides the last
  bit. A result outside the normal range of exponents (a subnormal number or an overflow)
  is outside this development (\<open>None\<close>).
\<close>

type_synonym float = "nat \<times> int"

fun bit_length :: "nat \<Rightarrow> nat" where
  "bit_length n = (if n = 0 then 0 else Suc (bit_length (n div 2)))"

declare bit_length.simps [simp del]

definition reaches :: "nat \<Rightarrow> nat \<Rightarrow> int \<Rightarrow> bool" where
  "reaches a b d = (if 0 \<le> d then b * 2 ^ nat d \<le> a else b \<le> a * 2 ^ nat (- d))"

definition round_to :: "nat \<Rightarrow> int \<Rightarrow> int \<Rightarrow> nat \<Rightarrow> nat \<Rightarrow> float option" where
  "round_to p emin emax a b =
     (if a = 0 then Some (0, 0)
      else
        let d = int (bit_length a) - int (bit_length b);
            e = (if reaches a b d then d else d - 1);
            sh = int p - 1 - e;
            num = (if 0 \<le> sh then a * 2 ^ nat sh else a);
            den = (if 0 \<le> sh then b else b * 2 ^ nat (- sh));
            n = num div den;
            r = num mod den;
            m = (if 2 * r < den then n else if den < 2 * r then n + 1
                 else if even n then n else n + 1)
        in if e < emin \<or> emax < e \<or> (e = emax \<and> m = 2 ^ p) then None
           else Some (m, e - int p + 1))"

definition float_val :: "float \<Rightarrow> rat" where
  "float_val f =
     (case f of (m, e) \<Rightarrow> if 0 \<le> e then of_nat m * 2 ^ nat e else of_nat m / 2 ^ nat (- e))"

text \<open>The number a parsed decimal stands for.\<close>

definition decimal_val :: "nat \<times> nat \<Rightarrow> rat" where
  "decimal_val d = (case d of (n, k) \<Rightarrow> of_nat n / 10 ^ k)"

text \<open>
  \<open>strconv.ParseFloat(s, 32)\<close>. On a decimal number as above it returns the nearest
  \<open>float32\<close>, as a \<open>float64\<close> of the same value. Every string it accepts is made of
  digits, signs, the point, the underscore and the letters of hexadecimal numbers, of
  exponents, of \<open>infinity\<close> and of \<open>nan\<close>; on the empty string and on a string with any
  other character it returns 0 and \<open>ErrSyntax\<close>. What it returns on the remaining strings
  (signs, exponents, hexadecimal numbers, infinities, numbers outside the normal range)
  is not part of this development (\<open>Unsupported\<close>).
\<close>

datatype parsed = Parsed float | ErrSyntax | Unsupported

definition float_char :: "char \<Rightarrow> bool" where
  "float_char c = (c \<in> set ''0123456789+-._abcdefABCDEFxXpPiInNtTyY'')"

definition ParseFloat32 :: "string \<Rightarrow> parsed" where
  "ParseFloat32 s =
     (case parse_decimal s of
        Some (n, k) \<Rightarrow>
          (case round_to 24 (- 126) 127 n (10 ^ k) of
             Some f \<Rightarrow> Parsed f
           | None \<Rightarrow> Unsupported)
      | None \<Rightarrow> if s \<noteq> [] \<and> list_all float_char s then Unsupported else ErrSyntax)"

text \<open>The sum of two \<open>float64\<close>: the exact sum, rounded to 53 bits.\<close>

definition add64 :: "float \<Rightarrow> float \<Rightarrow> float option" where
  "add64 x y =
     (case (x, y) of
        ((m1, e1), (m2, e2)) \<Rightarrow>
          let e = min e1 e2;
              m = m1 * 2 ^ nat (e1 - e) + m2 * 2 ^ nat (e2 - e)
          in if 0 \<le> e then round_to 53 (- 1022) 1023 (m * 2 ^ nat e) 1
             else round_to 53 (- 1022) 1023 m (2 ^ nat (- e)))"

text \<open>
  Modelled from the spec: the unary operator behind \<open>Stream.Map\<close>, the batch operator
  and the batch transform \<open>Sum\<close> are outside the files at hand. \<open>Map\<close> applies the
  function to each item and sends the results in the order of the items; \<open>Batch\<close> holds
  the whole upstream back and sends one item, the slice of all items in order; \<open>Sum\<close> is
  the numeric reduction of that slice, here the \<open>float64\<close> sum from zero, from left to
  right. A function that panics, or that leaves this development, ends the run (\<open>None\<close>).
\<close>

fun stream_Map :: "('a \<Rightarrow> 'b option) \<Rightarrow> 'a list \<Rightarrow> 'b list option" where
  "stream_Map f [] = Some []"
| "stream_Map f (x # xs) =
     (case f x of None \<Rightarrow> None | Some y \<Rightarrow> map_option ((#) y) (stream_Map f xs))"

definition Batch :: "'a list \<Rightarrow> 'a list list" where
  "Batch items = [items]"

fun Sum_from :: "float \<Rightarrow> float list \<Rightarrow> float option" where
  "Sum_from s [] = Some s"
| "Sum_from s (x # xs) = (case add64 s x of None \<Rightarrow> None | Some s' \<Rightarrow> Sum_from s' xs)"

definition Sum :: "float list \<Rightarrow> float option" where
  "Sum items = Sum_from (0, 0) items"

text \<open>
  \<open>main\<close> of the example: the nine rows, split at the commas, the field of index 3
  parsed, batched and summed. The index panics on a row with fewer fields; the second
  function drops the error of \<open>ParseFloat\<close> and returns the float, which is 0 on a
  syntax error. The result is what the sink is called with.
\<close>

definition rows :: "string list" where
  "rows =
    [''10452,17,12,0.71,5,0.29,0,0,17,100'',
     ''10453,14,7,0.5,7,0.5,0,0,14,100'',
     ''10454,18,8,0.44,10,0.56,0,0,18,100'',
     ''10455,27,17,0.63,10,0.37,0,0,27,100'',
     ''10456,5,3,0.6,2,0.4,0,0,5,100'',
     ''10458,52,25,0.48,27,0.52,0,0,52,100'',
     ''10459,7,5,0.71,2,0.29,0,0,7,100'',
     ''10460,27,20,0.74,7,0.26,0,0,27,100'',
     ''10461,49,26,0.53,23,0.47,0,0,49,100'']"

definition split_row :: "string \<Rightarrow> string list option" where
  "split_row row = Some (Split row CHR '','')"

definition parse_ratio :: "string list \<Rightarrow> float option" where
  "parse_ratio data =
     (if 3 < length data
      then (case ParseFloat32 (data ! 3) of
              Parsed f \<Rightarrow> Some f
            | ErrSyntax \<Rightarrow> Some (0, 0)
            | Unsupported \<Rightarrow> None)
      else None)"

definition sum_main :: "float list option" where
  "sum_main =
     (case stream_Map split_row rows of
        None \<Rightarrow> None
      | Some datas \<Rightarrow>
          (case stream_Map parse_ratio datas of
             None \<Rightarrow> None
           | Some fs \<Rightarrow> stream_Map Sum (Batch fs)))"

section \<open>Properties of the binary operator\<close>

subsection \<open>The loop and the emission of the state\<close>

lemma tick_simps: "tick None = None" "tick (Some k) = Some (k - 1)"
  by (simp_all add: tick_def)

lemma seen_Nil: "seen d [] = []"
  by (simp add: seen_def split: option.splits)

lemma seen_Cons: "d \<noteq> Some 0 \<Longrightarrow> seen d (x # xs) = x # seen (tick d) xs"
  by (cases d) (auto simp: seen_def tick_def take_Cons split: nat.splits)

lemma seen_0: "seen (Some 0) xs = []"
  by (simp add: seen_def)

lemma doOp_loop_returns:
  "apply_all f s (seen d its) = Some s' \<Longrightarrow> cl \<or> d \<noteq> None \<Longrightarrow>
   \<exists>w'. doOp_loop f lg ef its cl d s w = (s', w', Returned)"
proof (induction its arbitrary: d s w)
  case Nil
  then show ?case by (auto simp: seen_Nil)
next
  case (Cons x xs)
  show ?case
  proof (cases "d = Some 0")
    case True
    with Cons.prems show ?thesis by (simp add: seen_0)
  next
    case False
    with Cons.prems obtain s1 where s1: "f s x = Some s1" "apply_all f s1 (seen (tick d) xs) = Some s'"
      by (auto simp: seen_Cons split: option.splits)
    from Cons.prems(2) have "cl \<or> tick d \<noteq> None" by (cases d) (auto simp: tick_def)
    from Cons.IH [OF s1(2) this] have "\<And>w. \<exists>w'. doOp_loop f lg ef xs cl (tick d) s1 w = (s', w', Returned)" by blast
    with False s1(1) show ?thesis by (cases s1) simp_all
  qed
qed

lemma doOp_returns:
  assumes "final_state b (seen (ctx_done ctx) (in_items i)) = Some s'"
    and "in_closes i \<or> ctx_done ctx \<noteq> None"
  shows "\<exists>w'. doOp ctx i b w = (b\<lparr>b_state := s'\<rparr>, w', Returned)"
proof (cases "b_op b")
  case None
  with assms show ?thesis by (simp add: doOp_def final_state_def)
next
  case (Some f)
  with assms have "apply_all f (b_state b) (seen (ctx_done ctx) (in_items i)) = Some s'"
    by (simp add: final_state_def)
  from doOp_loop_returns [OF this assms(2)]
  obtain w' where "doOp_loop f (b_logf b) (b_errf b) (in_items i) (in_closes i) (ctx_done ctx) (b_state b) w = (s', w', Returned)"
    by blast
  with Some show ?thesis by (simp add: doOp_def)
qed

lemma Exec_task_emits:
  assumes "final_state b (seen (ctx_done ctx) (in_items i)) = Some s'"
    and "in_closes i \<or> ctx_done ctx \<noteq> None"
    and "b_output b = Some c" and "\<not> ch_closed c"
  shows "\<exists>w'. Exec_task ctx i b w =
           (b\<lparr>b_state := s', b_output := Some (c\<lparr>ch_sent := ch_sent c @ [s'], ch_closed := True\<rparr>)\<rparr>, w', Returned)"
proof -
  from doOp_returns [OF assms(1,2)] obtain w1 where "doOp ctx i b w = (b\<lparr>b_state := s'\<rparr>, w1, Returned)"
    by blast
  with assms(3,4) show ?thesis by (simp add: Exec_task_def)
qed

lemma binary_Exec_emits:
  assumes "b_input b = Some i"
    and "final_state b (seen (ctx_done ctx) (in_items i)) = Some s'"
    and "in_closes i \<or> ctx_done ctx \<noteq> None"
    and "b_output b = Some c" and "\<not> ch_closed c"
  shows "r_err (binary_Exec ctx b w) = None \<and> r_task (binary_Exec ctx b w) = Some Returned \<and>
         b_state (r_op (binary_Exec ctx b w)) = s' \<and>
         b_output (r_op (binary_Exec ctx b w)) = Some (c\<lparr>ch_sent := ch_sent c @ [s'], ch_closed := True\<rparr>)"
proof -
  let ?b1 = "b\<lparr>b_logf := ctx_logf ctx, b_errf := ctx_errf ctx\<rparr>"
  have "final_state ?b1 (seen (ctx_done ctx) (in_items i)) = Some s'"
    using assms(2) by (simp add: final_state_def split: option.splits)
  from Exec_task_emits [OF this assms(3), of c] assms(4,5)
  obtain w' where "Exec_task ctx i ?b1 (Logfn (ctx_logf ctx) (StrV ''Binary operator starting'') w) =
    (?b1\<lparr>b_state := s', b_output := Some (c\<lparr>ch_sent := ch_sent c @ [s'], ch_closed := True\<rparr>)\<rparr>, w', Returned)"
    by auto
  with assms(1) show ?thesis by (simp add: binary_Exec_def Let_def)
qed

lemma apply_all_total: "apply_all (\<lambda>a b. Some (g a b)) s xs = Some (foldl g s xs)"
  by (induction xs arbitrary: s) simp_all



text \<open>
  Claim C5. A reduce stage with initial state \<open>s0\<close> and an operation \<open>g\<close> that returns
  for all operands delivers the left fold of \<open>g\<close> over the source's items, from \<open>s0\<close>, as
  the one value the sink receives; and the source 1, 2, 3, 4, 5 reduced from 0 with the
  addition of \<open>int\<close>s leaves exactly 15 at the sink.
\<close>

theorem Reduce_sink_foldl:
  "Reduce_sink xs s0 (\<lambda>a b. Some (g a b)) = [foldl g s0 xs] \<and>
   Reduce_sink [IntV 1, IntV 2, IntV 3, IntV 4, IntV 5] (IntV 0) add_op = [IntV 15]"
proof
  let ?f = "\<lambda>a b. Some (g a b)"
  let ?b = "SetInput \<lparr>in_items = xs, in_closes = True\<rparr> (Reduce s0 ?f)"
  have "final_state ?b (seen (ctx_done background) (in_items \<lparr>in_items = xs, in_closes = True\<rparr>)) =
      Some (foldl g s0 xs)"
    by (simp add: final_state_def SetInput_def Reduce_def SetInitialState_def SetOperation_def
        background_def seen_def apply_all_total)
  from binary_Exec_emits [OF _ this, of "make_chan 1024" world0]
  have "b_output (r_op (binary_Exec background ?b world0)) =
      Some ((make_chan 1024)\<lparr>ch_sent := ch_sent (make_chan 1024 :: val chan) @ [foldl g s0 xs],
        ch_closed := True\<rparr>)"
    by (simp add: SetInput_def Reduce_def SetInitialState_def SetOperation_def binary_New_def
        make_chan_def)
  then show "Reduce_sink xs s0 ?f = [foldl g s0 xs]"
    by (simp add: Reduce_sink_def received_def make_chan_def)
next
  show "Reduce_sink [IntV 1, IntV 2, IntV 3, IntV 4, IntV 5] (IntV 0) add_op = [IntV 15]"
    by (simp add: Reduce_sink_def received_def binary_Exec_def Exec_task_def doOp_def Reduce_def
        SetInput_def from_zero_def SetInitialState_def SetOperation_def binary_New_def background_def
        make_chan_def world0_def Logfn_def tick_def)
qed

lemma doOp_loop_stores_result:
  "f s x = Some s' \<Longrightarrow> \<exists>w'. doOp_loop f lg ef [x] True None s w = (s', w', Returned)"
  by (cases s') (simp_all add: tick_def)

subsection \<open>Cancellation\<close>

text \<open>
  Claim C1, as stated, fails. With a context that is done before the first item is
  received, and two items waiting on the input, the output still receives a value: the
  state, here the initial state 0.
\<close>

theorem cancelled_Exec_delivers_state:
  "received (b_output (r_op (binary_Exec \<lparr>ctx_logf = False, ctx_errf = False, ctx_done = Some 0\<rparr>
      (SetInput \<lparr>in_items = [IntV 1, IntV 2], in_closes = True\<rparr> (from_zero add_op))
      world0))) = [IntV 0]"
  by (simp add: received_def binary_Exec_def Exec_task_def doOp_def
      SetInput_def from_zero_def SetInitialState_def SetOperation_def binary_New_def
      make_chan_def world0_def Logfn_def tick_def)

text \<open>
  Claim C1, amended. When the context is done before the input is drained, that is, when
  the loop takes the \<open>Done\<close> case after \<open>k\<close> items with \<open>k\<close> at most the number of items
  of the input, the goroutine still sends the state on the output, once, and closes the
  output: the state is the one reached after those \<open>k\<close> items. Cancellation stops the
  folding and not the emission.
\<close>

theorem binary_Exec_cancelled_emits_state:
  assumes "b_input b = Some i" and "ctx_done ctx = Some k" and "k \<le> length (in_items i)"
    and "b_output b = Some c" and "\<not> ch_closed c"
    and "final_state b (take k (in_items i)) = Some s"
  shows "r_err (binary_Exec ctx b w) = None \<and> r_task (binary_Exec ctx b w) = Some Returned \<and>
         b_output (r_op (binary_Exec ctx b w)) =
           Some (c\<lparr>ch_sent := ch_sent c @ [s], ch_closed := True\<rparr>)"
proof -
  from assms(2,6) have "final_state b (seen (ctx_done ctx) (in_items i)) = Some s"
    by (simp add: seen_def)
  from binary_Exec_emits [OF assms(1) this _ assms(4,5), of w] assms(2) show ?thesis by simp
qed

text \<open>
  The context is done after the first of three items: the output receives the state
  after that item, 1, and is closed.
\<close>

theorem binary_Exec_cancelled_emits_state_witness:
  "(1::nat) \<le> length (in_items \<lparr>in_items = [IntV 1, IntV 2, IntV 3], in_closes = False\<rparr>) \<and>
   b_output (r_op (binary_Exec \<lparr>ctx_logf = False, ctx_errf = False, ctx_done = Some 1\<rparr>
     (SetInput \<lparr>in_items = [IntV 1, IntV 2, IntV 3], in_closes = False\<rparr> (from_zero add_op))
     world0)) =
     Some \<lparr>ch_cap = 1024, ch_sent = [IntV 1], ch_closed = True\<rparr>"
  using binary_Exec_cancelled_emits_state
    [of "SetInput \<lparr>in_items = [IntV 1, IntV 2, IntV 3], in_closes = False\<rparr> (from_zero add_op)"
        "\<lparr>in_items = [IntV 1, IntV 2, IntV 3], in_closes = False\<rparr>"
        "\<lparr>ctx_logf = False, ctx_errf = False, ctx_done = Some 1\<rparr>" 1
        "make_chan 1024" "IntV 1" world0]
  by (simp add: SetInput_def from_zero_def SetInitialState_def SetOperation_def binary_New_def
      make_chan_def final_state_def)

subsection \<open>The type switch on the result\<close>

text \<open>
  Claim C2 fails on the code. From the initial state 0, with an error function set, one
  item on which the operation returns nil leaves nil as the state, and that is what the
  output receives; one item on which the operation returns a stream error leaves the
  error as the state, which the output receives, and the error is passed to the error
  function. In both runs the state before the item was 0.
\<close>

theorem doOp_stores_nil_and_error:
  "received (b_output (r_op (binary_Exec \<lparr>ctx_logf = False, ctx_errf = True, ctx_done = None\<rparr>
      (SetInput \<lparr>in_items = [IntV 1], in_closes = True\<rparr> (from_zero nil_op)) world0)))
     = [NilV] \<and>
   received (b_output (r_op (binary_Exec \<lparr>ctx_logf = False, ctx_errf = True, ctx_done = None\<rparr>
      (SetInput \<lparr>in_items = [IntV 1], in_closes = True\<rparr> (from_zero err_op)) world0)))
     = [StreamErrorV ''bad''] \<and>
   reported (r_world (binary_Exec \<lparr>ctx_logf = False, ctx_errf = True, ctx_done = None\<rparr>
      (SetInput \<lparr>in_items = [IntV 1], in_closes = True\<rparr> (from_zero err_op)) world0))
     = [StreamErrorV ''bad'']"
  by (simp add: received_def binary_Exec_def Exec_task_def doOp_def
      SetInput_def from_zero_def SetInitialState_def SetOperation_def binary_New_def
      make_chan_def world0_def Logfn_def Err_def tick_def)

subsection \<open>Construction and the concurrency degree\<close>

text \<open>
  Claim C8. Right after \<open>New\<close>, the output of a binary operator and the output of a
  stream operator are channels, not nil, of capacity 1024, open and with nothing sent.
\<close>

theorem New_output_capacity:
  "b_output binary_New = Some \<lparr>ch_cap = 1024, ch_sent = [], ch_closed = False\<rparr> \<and>
   s_output stream_New = Some \<lparr>ch_cap = 1024, ch_sent = [], ch_closed = False\<rparr>"
  by (simp add: binary_New_def stream_New_def make_chan_def)

lemma SetConcurrency_concurrency:
  "b_concurrency (SetConcurrency c b) = (if c <s 1 then 1 else c)"
  by (simp add: SetConcurrency_def Let_def)

lemma SetConcurrency_ge: "1 \<le>s b_concurrency (SetConcurrency c b)"
  by (auto simp add: SetConcurrency_concurrency word_sle_eq word_sless_alt)

lemma doOp_concurrency: "doOp ctx i b w = (b', w', e) \<Longrightarrow> b_concurrency b' = b_concurrency b"
  by (auto simp: doOp_def split: option.splits prod.splits)

lemma Exec_task_concurrency:
  "Exec_task ctx i b w = (b', w', e) \<Longrightarrow> b_concurrency b' = b_concurrency b"
  by (auto simp: Exec_task_def split: prod.splits if_splits outcome.splits dest: doOp_concurrency)

lemma binary_Exec_concurrency: "b_concurrency (r_op (binary_Exec ctx b w)) = b_concurrency b"
  by (auto simp: binary_Exec_def Let_def split: option.splits prod.splits
      dest: Exec_task_concurrency)

lemma do_call_concurrency:
  "1 \<le>s b_concurrency (fst bw) \<Longrightarrow> 1 \<le>s b_concurrency (fst (do_call bw c))"
  by (cases bw; cases c)
     (simp_all add: SetOperation_def SetInitialState_def SetInput_def SetConcurrency_ge
       binary_Exec_concurrency)

text \<open>
  \<open>Exec\<close> called twice: the first goroutine has taken the item out of the channel,
  so the second finds the channel empty and closed and leaves the state at 1. Its send
  on the output, which the first has closed, panics.
\<close>

lemma Exec_twice:
  "b_state (fst (do_calls [CallSetOperation add_op, CallSetInitialState (IntV 0),
      CallSetInput \<lparr>in_items = [IntV 1], in_closes = True\<rparr>,
      CallExec background, CallExec background])) = IntV 1 \<and>
   b_input (fst (do_calls [CallSetOperation add_op, CallSetInitialState (IntV 0),
      CallSetInput \<lparr>in_items = [IntV 1], in_closes = True\<rparr>,
      CallExec background, CallExec background])) = Some \<lparr>in_items = [], in_closes = True\<rparr>"
  by (simp add: do_calls_def binary_Exec_def Exec_task_def doOp_def drained_def
      SetInput_def SetInitialState_def SetOperation_def binary_New_def background_def
      make_chan_def world0_def Logfn_def tick_def)

lemma foldl_do_call_concurrency:
  "1 \<le>s b_concurrency (fst bw) \<Longrightarrow> 1 \<le>s b_concurrency (fst (foldl do_call bw cs))"
  by (induction cs arbitrary: bw) (simp_all add: do_call_concurrency)

text \<open>
  Claim C9. \<open>New\<close> sets the concurrency degree to 1; \<open>SetConcurrency\<close> leaves it at
  least 1 for every argument, as a signed 64-bit integer: an argument below 1 gives 1
  and any other argument is kept; and the degree is at least 1 after every sequence of
  calls on a new operator.
\<close>

theorem concurrency_at_least_1:
  "b_concurrency binary_New = 1 \<and>
   1 \<le>s b_concurrency (SetConcurrency c b) \<and>
   b_concurrency (SetConcurrency c b) = (if c <s 1 then 1 else c) \<and>
   1 \<le>s b_concurrency (fst (do_calls cs))"
proof -
  have "1 \<le>s b_concurrency (fst (binary_New, world0))" by (simp add: binary_New_def)
  from foldl_do_call_concurrency [OF this] have inv: "1 \<le>s b_concurrency (fst (do_calls cs))"
    by (simp add: do_calls_def)
  have new: "b_concurrency binary_New = 1" by (simp add: binary_New_def)
  from new SetConcurrency_ge [of c b] SetConcurrency_concurrency [of c b] inv show ?thesis
    by (intro conjI)
qed

text \<open>
  The arguments 0 and \<open>-1\<close> give the degree 1, and the argument 4 of
  \<open>TestBinaryOp_Params\<close> is kept.
\<close>

theorem concurrency_at_least_1_witness:
  "b_concurrency (SetConcurrency 0 binary_New) = 1 \<and>
   b_concurrency (SetConcurrency (- 1) binary_New) = 1 \<and>
   b_concurrency (SetConcurrency 4 binary_New) = 4 \<and>
   1 \<le>s b_concurrency (fst (do_calls [CallSetConcurrency (- 5), CallExec background]))"
  using concurrency_at_least_1 [of 0 binary_New "[CallSetConcurrency (- 5), CallExec background]"]
    concurrency_at_least_1 [of "- 1" binary_New "[]"]
    concurrency_at_least_1 [of 4 binary_New "[]"]
  by (simp add: word_sless_alt)

subsection \<open>Exec without an input\<close>

lemma doOp_loop_blocks:
  "apply_all f s its = Some s' \<Longrightarrow> \<exists>w'. doOp_loop f lg ef its False None s w = (s', w', Blocked)"
proof (induction its arbitrary: s w)
  case Nil
  then show ?case by simp
next
  case (Cons x xs)
  then obtain s1 where s1: "f s x = Some s1" "apply_all f s1 xs = Some s'"
    by (auto split: option.splits)
  from Cons.IH [OF s1(2)] have "\<And>w. \<exists>w'. doOp_loop f lg ef xs False None s1 w = (s', w', Blocked)"
    by blast
  with s1(1) show ?case by (cases s1) (simp_all add: tick_def)
qed

text \<open>
  While the input is open and the context is not done, the goroutine of a binary
  operator with an operation waits, and its output is as it was: nothing is sent before
  the loop ends.
\<close>

lemma binary_Exec_waits:
  assumes "b_input b = Some i" and "\<not> in_closes i" and "ctx_done ctx = None"
    and "b_op b = Some f" and "apply_all f (b_state b) (in_items i) = Some s"
  shows "r_task (binary_Exec ctx b w) = Some Blocked \<and>
         b_output (r_op (binary_Exec ctx b w)) = b_output b"
proof -
  from doOp_loop_blocks [OF assms(5)] obtain w' where
    "doOp_loop f (ctx_logf ctx) (ctx_errf ctx) (in_items i) False None (b_state b)
       (Logfn (ctx_logf ctx) (StrV ''Binary operator starting'') w) = (s, w', Blocked)"
    by blast
  with assms(1-4) show ?thesis
    by (simp add: binary_Exec_def Exec_task_def doOp_def Let_def)
qed

text \<open>
  Claim C10. When no input has been set, \<open>Exec\<close> of a binary operator and \<open>Exec\<close> of a
  stream operator return the error \<open>No input channel found\<close>, start no goroutine, and leave
  the output channel as it was: nothing is sent on it and it is not closed.
\<close>

theorem Exec_without_input:
  "(b_input b = None \<longrightarrow>
      r_err (binary_Exec ctx b w) = Some ''No input channel found'' \<and>
      r_task (binary_Exec ctx b w) = None \<and>
      b_output (r_op (binary_Exec ctx b w)) = b_output b) \<and>
   (s_input r = None \<longrightarrow>
      r_err (stream_Exec ctx r w) = Some ''No input channel found'' \<and>
      r_task (stream_Exec ctx r w) = None \<and>
      s_output (r_op (stream_Exec ctx r w)) = s_output r)"
  by (simp add: binary_Exec_def stream_Exec_def Let_def)

text \<open>
  On a new binary operator and a new stream operator: the error is returned, and the
  output is still the open, empty channel of capacity 1024.
\<close>

theorem Exec_without_input_witness:
  "b_input binary_New = None \<and> s_input stream_New = None \<and>
   r_err (binary_Exec background binary_New world0) = Some ''No input channel found'' \<and>
   r_task (binary_Exec background binary_New world0) = None \<and>
   b_output (r_op (binary_Exec background binary_New world0)) =
     Some \<lparr>ch_cap = 1024, ch_sent = [], ch_closed = False\<rparr> \<and>
   r_err (stream_Exec background stream_New world0) = Some ''No input channel found'' \<and>
   r_task (stream_Exec background stream_New world0) = None \<and>
   s_output (r_op (stream_Exec background stream_New world0)) =
     Some \<lparr>ch_cap = 1024, ch_sent = [], ch_closed = False\<rparr>"
  using Exec_without_input [of binary_New background world0 stream_New]
  by (simp add: binary_New_def stream_New_def make_chan_def)

section \<open>Properties of the null collector\<close>



lemma null_loop_no_panic: "null_loop its cl d \<noteq> Panicked"
  by (induction its arbitrary: d) auto






section \<open>Properties of the stream operator\<close>

lemma emit_all:
  "\<not> ch_closed c \<Longrightarrow> emit vs None (Some c) = Emitted (Some (c\<lparr>ch_sent := ch_sent c @ vs\<rparr>)) None"
  by (induction vs arbitrary: c) (simp_all add: tick_def)

lemma unpack_Some: "v \<noteq> NilV \<Longrightarrow> unpack v = Some (unpacked v)"
  by (cases v) (simp_all add: unpacked_def)

lemma stream_loop_all:
  "\<not> ch_closed c \<Longrightarrow> NilV \<notin> set its \<Longrightarrow>
   stream_loop its True None (Some c) =
     (Some (c\<lparr>ch_sent := ch_sent c @ concat (map unpacked its)\<rparr>), Returned)"
proof (induction its arbitrary: c)
  case Nil
  then show ?case by simp
next
  case (Cons x xs)
  from Cons.prems have x: "unpack x = Some (unpacked x)" by (auto intro: unpack_Some)
  let ?c = "c\<lparr>ch_sent := ch_sent c @ unpacked x\<rparr>"
  from Cons.prems have "\<not> ch_closed ?c" "NilV \<notin> set xs" by simp_all
  from Cons.IH [OF this] Cons.prems(1) x show ?case
    by (simp add: emit_all tick_def)
qed

lemma MapV_tuples:
  "distinct (map fst kvs) \<Longrightarrow>
   map (\<lambda>k. KV k (MapIndex kvs k)) (MapKeys kvs) = map (\<lambda>(k, v). KV k v) kvs"
  by (auto simp: MapKeys_def MapIndex_def)

lemma unpacked_shapes:
  "unpacked (SliceV vs) = vs"
  "distinct (map fst kvs) \<Longrightarrow> unpacked (MapV kvs) = map (\<lambda>(k, v). KV k v) kvs"
  "unpacked (IntV n) = [IntV n]"
  "unpacked (StrV s) = [StrV s]"
  "unpacked (StreamErrorV m) = [StreamErrorV m]"
  by (simp_all add: unpacked_def MapV_tuples)

lemma stream_Exec_unpacks:
  assumes "s_input r = Some i" and "in_closes i" and "ctx_done ctx = None"
    and "s_output r = Some c" and "\<not> ch_closed c" and "NilV \<notin> set (in_items i)"
  shows "r_err (stream_Exec ctx r w) = None \<and> r_task (stream_Exec ctx r w) = Some Returned \<and>
         s_output (r_op (stream_Exec ctx r w)) =
           Some (c\<lparr>ch_sent := ch_sent c @ concat (map unpacked (in_items i)), ch_closed := True\<rparr>)"
  using assms stream_loop_all [OF assms(5,6)]
  by (simp add: stream_Exec_def stream_task_def Let_def)

text \<open>
  Claim C6 fails on the code for the nil item. A stream operator that receives the nil
  interface as an item panics in \<open>itemType.Kind()\<close>; nothing is passed downstream. For
  every other item \<open>stream_Exec_unpacks\<close> and \<open>unpacked_shapes\<close> give what the claim
  says: the elements of a slice in index order, one pair of key and value for each entry
  of a map, and any other item itself.
\<close>

theorem stream_Exec_nil_item_panics:
  "r_task (stream_Exec background (stream_SetInput \<lparr>in_items = [NilV], in_closes = True\<rparr> stream_New) world0)
     = Some Panicked \<and>
   received (s_output (r_op (stream_Exec background
     (stream_SetInput \<lparr>in_items = [NilV], in_closes = True\<rparr> stream_New) world0))) = []"
  by (simp add: stream_Exec_def stream_task_def stream_SetInput_def stream_New_def background_def
      make_chan_def received_def Logfn_def Let_def)


section \<open>Properties of the batch sum example\<close>

text \<open>Evaluation rules for the bit length and the rounding of numerals.\<close>

lemma bit_length_0: "bit_length 0 = 0"
  by (simp add: bit_length.simps [of 0])

lemma bit_length_Suc_0: "bit_length (Suc 0) = 1"
  by (simp add: bit_length.simps [of "Suc 0"] bit_length_0)

lemma bit_length_num: "bit_length (numeral k) = bit_length (numeral k div 2) + 1"
  by (simp add: bit_length.simps [of "numeral k"])

lemmas bit_length_numeral = bit_length_0 bit_length_Suc_0 bit_length_num

lemmas round_to_numeral = round_to_def [of _ _ _ "numeral a" "numeral b" for a b]

text \<open>A field that is no number: \<open>ParseFloat\<close> fails and the function returns 0.\<close>

lemma parse_ratio_syntax_error:
  "parse_ratio [''10452'', ''17'', ''12'', ''n/a''] = Some (0, 0)"
  by (simp add: parse_ratio_def ParseFloat32_def parse_decimal_def digit_of_def float_char_def)

lemma split_rows:
  "stream_Map split_row rows = Some
    [[''10452'', ''17'', ''12'', ''0.71'', ''5'', ''0.29'', ''0'', ''0'', ''17'', ''100''],
     [''10453'', ''14'', ''7'', ''0.5'', ''7'', ''0.5'', ''0'', ''0'', ''14'', ''100''],
     [''10454'', ''18'', ''8'', ''0.44'', ''10'', ''0.56'', ''0'', ''0'', ''18'', ''100''],
     [''10455'', ''27'', ''17'', ''0.63'', ''10'', ''0.37'', ''0'', ''0'', ''27'', ''100''],
     [''10456'', ''5'', ''3'', ''0.6'', ''2'', ''0.4'', ''0'', ''0'', ''5'', ''100''],
     [''10458'', ''52'', ''25'', ''0.48'', ''27'', ''0.52'', ''0'', ''0'', ''52'', ''100''],
     [''10459'', ''7'', ''5'', ''0.71'', ''2'', ''0.29'', ''0'', ''0'', ''7'', ''100''],
     [''10460'', ''27'', ''20'', ''0.74'', ''7'', ''0.26'', ''0'', ''0'', ''27'', ''100''],
     [''10461'', ''49'', ''26'', ''0.53'', ''23'', ''0.47'', ''0'', ''0'', ''49'', ''100'']]"
  by (simp add: rows_def split_row_def Split_def)

lemma ratios:
  "stream_Map parse_ratio
    [[''10452'', ''17'', ''12'', ''0.71'', ''5'', ''0.29'', ''0'', ''0'', ''17'', ''100''],
     [''10453'', ''14'', ''7'', ''0.5'', ''7'', ''0.5'', ''0'', ''0'', ''14'', ''100''],
     [''10454'', ''18'', ''8'', ''0.44'', ''10'', ''0.56'', ''0'', ''0'', ''18'', ''100''],
     [''10455'', ''27'', ''17'', ''0.63'', ''10'', ''0.37'', ''0'', ''0'', ''27'', ''100''],
     [''10456'', ''5'', ''3'', ''0.6'', ''2'', ''0.4'', ''0'', ''0'', ''5'', ''100''],
     [''10458'', ''52'', ''25'', ''0.48'', ''27'', ''0.52'', ''0'', ''0'', ''52'', ''100''],
     [''10459'', ''7'', ''5'', ''0.71'', ''2'', ''0.29'', ''0'', ''0'', ''7'', ''100''],
     [''10460'', ''27'', ''20'', ''0.74'', ''7'', ''0.26'', ''0'', ''0'', ''27'', ''100''],
     [''10461'', ''49'', ''26'', ''0.53'', ''23'', ''0.47'', ''0'', ''0'', ''49'', ''100'']]
   = Some [(11911823, - 24), (8388608, - 24), (14763950, - 25), (10569646, - 24),
       (10066330, - 24), (16106127, - 25), (11911823, - 24), (12415140, - 24), (8891924, - 24)]"
  by (simp add: parse_ratio_def ParseFloat32_def parse_decimal_def digit_of_def round_to_numeral
      reaches_def bit_length_numeral Let_def)

lemma sums:
  "Sum [(11911823, - 24), (8388608, - 24), (14763950, - 25), (10569646, - 24),
       (10066330, - 24), (16106127, - 25), (11911823, - 24), (12415140, - 24), (8891924, - 24)]
   = Some (6012305439457280, - 50)"
  by (simp add: Sum_def add64_def round_to_numeral reaches_def bit_length_numeral Let_def)

lemma sum_main_value: "sum_main = Some [(6012305439457280, - 50)]"
proof -
  have "stream_Map Sum (Batch [(11911823, - 24), (8388608, - 24), (14763950, - 25),
       (10569646, - 24), (10066330, - 24), (16106127, - 25), (11911823, - 24),
       (12415140, - 24), (8891924, - 24)]) = Some [(6012305439457280, - 50)]"
    by (simp add: Batch_def sums)
  then show ?thesis
    by (simp only: sum_main_def split_rows ratios option.case)
qed

text \<open>
  The ratio fields of the rows as decimal numbers, before any rounding: they add up to
  5.34.
\<close>

lemma ratio_fields:
  "map (\<lambda>data. parse_decimal (data ! 3))
    [[''10452'', ''17'', ''12'', ''0.71'', ''5'', ''0.29'', ''0'', ''0'', ''17'', ''100''],
     [''10453'', ''14'', ''7'', ''0.5'', ''7'', ''0.5'', ''0'', ''0'', ''14'', ''100''],
     [''10454'', ''18'', ''8'', ''0.44'', ''10'', ''0.56'', ''0'', ''0'', ''18'', ''100''],
     [''10455'', ''27'', ''17'', ''0.63'', ''10'', ''0.37'', ''0'', ''0'', ''27'', ''100''],
     [''10456'', ''5'', ''3'', ''0.6'', ''2'', ''0.4'', ''0'', ''0'', ''5'', ''100''],
     [''10458'', ''52'', ''25'', ''0.48'', ''27'', ''0.52'', ''0'', ''0'', ''52'', ''100''],
     [''10459'', ''7'', ''5'', ''0.71'', ''2'', ''0.29'', ''0'', ''0'', ''7'', ''100''],
     [''10460'', ''27'', ''20'', ''0.74'', ''7'', ''0.26'', ''0'', ''0'', ''27'', ''100''],
     [''10461'', ''49'', ''26'', ''0.53'', ''23'', ''0.47'', ''0'', ''0'', ''49'', ''100'']]
   = [Some (71, 2), Some (5, 1), Some (44, 2), Some (63, 2), Some (6, 1), Some (48, 2),
      Some (71, 2), Some (74, 2), Some (53, 2)]"
  by (simp add: parse_decimal_def digit_of_def)

lemma ratio_fields_sum:
  "sum_list (map decimal_val
     [(71, 2), (5, 1), (44, 2), (63, 2), (6, 1), (48, 2), (71, 2), (74, 2), (53, 2)]) = 534 / 100"
  by (simp add: decimal_val_def)

lemma round_5_04: "round_to 53 (- 1022) 1023 504 100 = Some (5674535530486825, - 50)"
  by (simp add: round_to_numeral reaches_def bit_length_numeral Let_def)

text \<open>
  Claim C3, as stated, fails. The sink of the example is called with one float, and
  that float is not 5.04: neither the number 5.04 nor the \<open>float64\<close> nearest to it.
  By \<open>ratio_fields_sum\<close> the fields add up to 5.34 already as decimal numbers.
\<close>

theorem sum_main_is_not_5_04:
  "sum_main = Some [(6012305439457280, - 50)] \<and>
   float_val (6012305439457280, - 50) \<noteq> 504 / 100 \<and>
   round_to 53 (- 1022) 1023 504 100 \<noteq> Some (6012305439457280, - 50)"
proof (intro conjI)
  show "sum_main = Some [(6012305439457280, - 50)]" by (rule sum_main_value)
  show "float_val (6012305439457280, - 50) \<noteq> 504 / 100" by (simp add: float_val_def)
  show "round_to 53 (- 1022) 1023 504 100 \<noteq> Some (6012305439457280, - 50)"
    by (simp add: round_5_04)
qed

text \<open>
  Claim C3, amended. The sink of the example is called with exactly one float, the
  number \<open>179180665 / 2 ^ 25\<close>. It is the sum of the nine ratio fields as parsed to
  32 bits (the floats of \<open>ratios\<close>; no addition rounds), and it is 5.34 to within
  \<open>10 ^ -7\<close>.
\<close>

theorem sum_main_total:
  "sum_main = Some [(6012305439457280, - 50)] \<and>
   float_val (6012305439457280, - 50) = 179180665 / 2 ^ 25 \<and>
   float_val (6012305439457280, - 50) =
     sum_list (map float_val [(11911823, - 24), (8388608, - 24), (14763950, - 25),
       (10569646, - 24), (10066330, - 24), (16106127, - 25), (11911823, - 24),
       (12415140, - 24), (8891924, - 24)]) \<and>
   \<bar>float_val (6012305439457280, - 50) - 534 / 100\<bar> < 1 / 10 ^ 7"
proof (intro conjI)
  show "sum_main = Some [(6012305439457280, - 50)]" by (rule sum_main_value)
  show "float_val (6012305439457280, - 50) = 179180665 / 2 ^ 25" by (simp add: float_val_def)
  show "float_val (6012305439457280, - 50) =
     sum_list (map float_val [(11911823, - 24), (8388608, - 24), (14763950, - 25),
       (10569646, - 24), (10066330, - 24), (16106127, - 25), (11911823, - 24),
       (12415140, - 24), (8891924, - 24)])"
    by (simp add: float_val_def)
  show "\<bar>float_val (6012305439457280, - 50) - 534 / 100\<bar> < 1 / 10 ^ 7"
    by (simp add: float_val_def)
qed

end
